theory Spec2Isabelle
  imports Main
begin

section \<open>JavaScript strings and values\<close>

text \<open>
  The controllers and middleware of the account service are modelled as pure functions
  over an explicit store. Strings are HOL strings; the helpers below are the String
  methods the sources call. \<open>toLowerCase\<close> and \<open>trim\<close> are given on ASCII.
\<close>

definition startsWith :: "string \<Rightarrow> string \<Rightarrow> bool" where
  "startsWith s p = (take (length p) s = p)"

fun split_acc :: "char \<Rightarrow> string \<Rightarrow> string \<Rightarrow> string list" where
  "split_acc sep cur [] = [rev cur]"
| "split_acc sep cur (c # cs) =
     (if c = sep then rev cur # split_acc sep [] cs else split_acc sep (c # cur) cs)"

definition split :: "string \<Rightarrow> char \<Rightarrow> string list" where
  \<comment> \<open>\<open>s.split(sep)\<close> for a one-character separator: the pieces, empty ones included\<close>
  "split s sep = split_acc sep [] s"

definition first :: "string list \<Rightarrow> string" where
  \<comment> \<open>\<open>pieces[0]\<close>; \<open>split\<close> returns at least one piece\<close>
  "first pieces = (case pieces of [] \<Rightarrow> [] | p # ps \<Rightarrow> p)"

definition at_index :: "'a list \<Rightarrow> nat \<Rightarrow> 'a option" where
  \<comment> \<open>\<open>xs[i]\<close>: \<open>undefined\<close> out of range\<close>
  "at_index xs i = (if i < length xs then Some (xs ! i) else None)"

definition lower_char :: "char \<Rightarrow> char" where
  "lower_char c =
     (let n = (of_char c :: nat) in if 65 \<le> n \<and> n \<le> 90 then char_of (n + 32) else c)"

definition toLowerCase :: "string \<Rightarrow> string" where
  "toLowerCase s = map lower_char s"

definition is_space :: "char \<Rightarrow> bool" where
  "is_space c = ((of_char c :: nat) \<in> {9, 10, 11, 12, 13, 32})"

definition trim :: "string \<Rightarrow> string" where
  "trim s = rev (dropWhile is_space (rev (dropWhile is_space s)))"

definition falsy :: "string option \<Rightarrow> bool" where
  \<comment> \<open>\<open>!x\<close> for a value that is a string or \<open>undefined\<close>\<close>
  "falsy x = (case x of None \<Rightarrow> True | Some s \<Rightarrow> s = [])"

definition str_of :: "string option \<Rightarrow> string" where
  "str_of x = (case x of None \<Rightarrow> [] | Some s \<Rightarrow> s)"

definition digit_char :: "nat \<Rightarrow> char" where
  "digit_char d = char_of (48 + d)"

fun string_of_nat :: "nat \<Rightarrow> string" where
  "string_of_nat n =
     (if n < 10 then [digit_char n] else string_of_nat (n div 10) @ [digit_char (n mod 10)])"

declare string_of_nat.simps [simp del]

text \<open>
  An ObjectId is rendered by \<open>toString\<close> as 24 hexadecimal digits in lower case. A
  string that arrives as an identifier is cast before the collection is searched: 24
  hexadecimal digits, in either case, denote the ObjectId with their lower-case
  rendering; any other string is refused with a CastError (the 12-byte form that some
  driver versions accept is left out). A fresh identifier is the counter of the store,
  padded to 24 digits.
\<close>

definition is_hex :: "char \<Rightarrow> bool" where
  "is_hex c =
     (let n = (of_char c :: nat)
      in (48 \<le> n \<and> n \<le> 57) \<or> (65 \<le> n \<and> n \<le> 70) \<or> (97 \<le> n \<and> n \<le> 102))"

definition castObjectId :: "string \<Rightarrow> string option" where
  "castObjectId s = (if length s = 24 \<and> list_all is_hex s then Some (toLowerCase s) else None)"

definition objectId_of_nat :: "nat \<Rightarrow> string" where
  "objectId_of_nat n =
     (let digits = string_of_nat n in replicate (24 - length digits) CHR ''0'' @ digits)"

text \<open>A plain JavaScript object, as \<open>toObject()\<close> returns it and \<open>res.json\<close> sends it.\<close>

datatype jvalue = JStr string | JNum int | JBool bool

type_synonym jobject = "(string \<times> jvalue) list"

definition delete_key :: "string \<Rightarrow> jobject \<Rightarrow> jobject" where
  \<comment> \<open>\<open>delete obj.key\<close>\<close>
  "delete_key k obj = filter (\<lambda>kv. fst kv \<noteq> k) obj"

definition has_key :: "string \<Rightarrow> jobject \<Rightarrow> bool" where
  "has_key k obj = (k \<in> fst ` set obj)"

definition opt_field :: "string \<Rightarrow> ('a \<Rightarrow> jvalue) \<Rightarrow> 'a option \<Rightarrow> jobject" where
  "opt_field k f x = (case x of None \<Rightarrow> [] | Some v \<Rightarrow> [(k, f v)])"

section \<open>Data model\<close>

text \<open>
  Modelled from the spec: the account document of the User model (section 3, Account),
  whose schema file is not among the sources. The field names are the ones the
  controllers read and write. \<open>uid\<close> is \<open>_id.toString()\<close>; the hashed password is
  always stored; the role and the profile fields may be absent. Identifiers are strings
  in the form \<open>toString\<close> gives them; the identifier of a verified token is minted
  from that form.
\<close>

record user =
  uid :: string
  email :: string
  password :: string
  name :: "string option"
  relationshipType :: "string option"
  dateOfBirth :: "string option"
  numberOfChildren :: "int option"
  isEmailConfirmed :: bool
  isProfileComplete :: bool
  role :: "string option"
  createdAt :: nat

text \<open>The one-time-code document of the Otp model: email, otp, createdAt.\<close>

record otp_doc =
  otp_id :: string
  otp_email :: string
  otp :: string
  otp_createdAt :: nat

text \<open>
  Every call a handler makes on a collaborator (the two collections, the password
  comparison, the mail transport) is appended to the store's log, so that the order of
  the checks and the absence of a call can be stated.
\<close>

datatype call =
    FindOneUser string
  | FindUserById string
  | CreateUser string
  | FindOneAndUpdateUser string
  | FindByIdAndUpdateUser string
  | FindByIdAndDeleteUser string
  | SaveUser string
  | FindUsers
  | CountUsers
  | FindOneOtp string string
  | CreateOtp string string
  | DeleteOneOtp string
  | ComparePassword string
  | SendOTPEmail string string

record store =
  users :: "user list"
  otps :: "otp_doc list"
  next_id :: nat
  calls :: "call list"

text \<open>
  What a request meets outside the store: the translation table (its Arabic half is
  not ASCII, so the table is a parameter), the token library closed over the configured
  secret and lifetime, the password hash, the random draw
  \<open>Math.floor(Math.random() * 9000)\<close> (a number below 9000), whether the mail transport
  delivers, the regular-expression match of the database, and the clock.
\<close>

datatype jwt_result = Decoded string | Throws string string

record env =
  table :: "string \<Rightarrow> (string \<Rightarrow> string option) option"
  jwt_sign :: "string \<Rightarrow> string"
  jwt_verify :: "string \<Rightarrow> jwt_result"
  bcrypt_hash :: "string \<Rightarrow> string"
  bcrypt_compare :: "string \<Rightarrow> string \<Rightarrow> bool"
  random_draw :: nat
  sendMail_ok :: "string \<Rightarrow> string \<Rightarrow> bool"
  regex_i :: "string \<Rightarrow> string \<Rightarrow> bool"
  now :: nat

text \<open>
  A query-string value is one string, or an array of strings when the key is repeated
  (nested objects are left out). The request record holds what the handlers read: the two
  headers, the body fields (absent, or of the type the handler expects), the path
  identifier, the query parameters and the identity \<open>req.user\<close>. \<open>query_page\<close> and
  \<open>query_limit\<close> are what \<open>parseInt\<close> returns, \<open>None\<close> for \<open>NaN\<close>.
\<close>

datatype qvalue = QStr string | QArr "string list"

record request =
  authorization :: "string option"
  accept_language :: "string option"
  body_email :: "string option"
  body_password :: "string option"
  body_otp :: "string option"
  body_name :: "string option"
  body_relationshipType :: "string option"
  body_dateOfBirth :: "string option"
  body_numberOfChildren :: "int option"
  body_role :: "string option"
  body_isEmailConfirmed :: "bool option"
  body_isProfileComplete :: "bool option"
  params_id :: string
  query_page :: "int option"
  query_limit :: "int option"
  query_search :: "string option"
  query_isEmailConfirmed :: "qvalue option"
  query_isProfileComplete :: "qvalue option"
  query_role :: "qvalue option"
  req_user :: "user option"

text \<open>
  An error handed to \<open>next\<close>: an \<open>AppError\<close> (message, statusCode, status,
  translationKey), or another JavaScript error with its name and message.
\<close>

datatype error =
    AppError string nat string string
  | JsError string string

fun error_name :: "error \<Rightarrow> string" where
  "error_name (AppError m c s k) = ''Error''"
| "error_name (JsError n m) = n"

datatype payload =
    No_data
  | Token_user string jobject
  | User_only jobject
  | Token_admin string jobject
  | Users_page "jobject list" int int int int

record response =
  res_code :: nat
  res_message :: "string option"
  res_data :: payload

datatype outcome = Next_err error | Respond response | Next_ok request

section \<open>Translations (utils/translations.ts)\<close>

definition getLanguage :: "request \<Rightarrow> string" where
  "getLanguage req =
     (if falsy (accept_language req) then ''en''
      else
        let lang = trim (first (split (trim (first (split (toLowerCase (str_of (accept_language req)))
                     CHR '',''))) CHR '';''))
        in if startsWith lang ''ar'' then ''ar'' else ''en'')"

definition translate :: "env \<Rightarrow> string \<Rightarrow> string \<Rightarrow> string" where
  "translate e key lang =
     (let en = (case table e ''en'' of None \<Rightarrow> (\<lambda>k. None) | Some t \<Rightarrow> t);
          langTranslations = (case table e lang of None \<Rightarrow> en | Some t \<Rightarrow> t)
      in if \<not> falsy (langTranslations key) then str_of (langTranslations key)
         else if \<not> falsy (en key) then str_of (en key)
         else key)"

definition translateRequest :: "env \<Rightarrow> string \<Rightarrow> request \<Rightarrow> string" where
  "translateRequest e key req = translate e key (getLanguage req)"

definition appError :: "env \<Rightarrow> request \<Rightarrow> string \<Rightarrow> nat \<Rightarrow> error" where
  \<comment> \<open>\<open>new AppError(translateRequest(key, req), code, "error", key)\<close>\<close>
  "appError e req key code = AppError (translateRequest e key req) code ''error'' key"

section \<open>The collections\<close>

text \<open>
  A filter \<open>{field: value}\<close> selects the documents whose stored field equals the
  value; \<open>findOne\<close> returns the first of them. Each operation logs its call.
  The database layer casts a value through the options of its schema path when it
  stores it and when it filters by it: the Otp schema lower-cases and trims the email
  (\<open>otp_email_cast\<close>). The User schema is not among the sources; the spec has its
  lookup match the stored email exactly and case-sensitively, and so it is modelled.
  Documents are returned whole, the hashed password included, unless the password is
  deselected.
\<close>

definition otp_email_cast :: "string \<Rightarrow> string" where
  \<comment> \<open>the Otp schema's \<open>email: {lowercase: true, trim: true}\<close>\<close>
  "otp_email_cast em = trim (toLowerCase em)"

definition castError :: error where
  "castError = JsError ''CastError'' ''Cast to ObjectId failed''"

definition logged :: "call \<Rightarrow> store \<Rightarrow> store" where
  "logged c st = st\<lparr>calls := calls st @ [c]\<rparr>"

fun update_first :: "('a \<Rightarrow> bool) \<Rightarrow> ('a \<Rightarrow> 'a) \<Rightarrow> 'a list \<Rightarrow> 'a list" where
  "update_first P f [] = []"
| "update_first P f (x # xs) = (if P x then f x # xs else x # update_first P f xs)"

fun remove_first :: "('a \<Rightarrow> bool) \<Rightarrow> 'a list \<Rightarrow> 'a list" where
  "remove_first P [] = []"
| "remove_first P (x # xs) = (if P x then xs else x # remove_first P xs)"

definition User_findOne :: "string \<Rightarrow> store \<Rightarrow> user option \<times> store" where
  "User_findOne em st = (find (\<lambda>u. email u = em) (users st), logged (FindOneUser em) st)"

definition User_findById :: "string \<Rightarrow> store \<Rightarrow> user option \<times> store" where
  \<comment> \<open>\<open>findById\<close> of an ObjectId (\<open>req.user._id\<close>) or of the identifier of a verified
      token, which is an ObjectId's own rendering\<close>
  "User_findById i st = (find (\<lambda>u. uid u = i) (users st), logged (FindUserById i) st)"

definition User_findById_path :: "string \<Rightarrow> store \<Rightarrow> (error + user option) \<times> store" where
  \<comment> \<open>\<open>findById\<close> of a path string: the string is cast to an ObjectId first\<close>
  "User_findById_path i st =
     (case castObjectId i of
        None \<Rightarrow> (Inl castError, logged (FindUserById i) st)
      | Some oid \<Rightarrow> (Inr (find (\<lambda>u. uid u = oid) (users st)), logged (FindUserById i) st))"

text \<open>
  Modelled from the spec: \<open>User.create\<close> of the missing User model. The secret is
  hashed before it is stored, the role defaults to \<open>user\<close>, the profile is empty and
  the creation time is recorded.
\<close>

definition User_create :: "env \<Rightarrow> string \<Rightarrow> string \<Rightarrow> bool \<Rightarrow> bool \<Rightarrow> store \<Rightarrow> user \<times> store" where
  "User_create e em pw confirmed complete st =
     (let u = \<lparr>uid = objectId_of_nat (next_id st), email = em, password = bcrypt_hash e pw,
                name = None, relationshipType = None, dateOfBirth = None,
                numberOfChildren = None, isEmailConfirmed = confirmed,
                isProfileComplete = complete, role = Some ''user'', createdAt = now e\<rparr>
      in (u, logged (CreateUser em) (st\<lparr>users := users st @ [u], next_id := Suc (next_id st)\<rparr>)))"

definition User_findOneAndUpdate ::
  "string \<Rightarrow> (user \<Rightarrow> user) \<Rightarrow> store \<Rightarrow> user option \<times> store" where
  \<comment> \<open>with \<open>{new: true}\<close>: the document after the update\<close>
  "User_findOneAndUpdate em f st =
     (map_option f (find (\<lambda>u. email u = em) (users st)),
      logged (FindOneAndUpdateUser em) (st\<lparr>users := update_first (\<lambda>u. email u = em) f (users st)\<rparr>))"

definition User_findByIdAndUpdate ::
  "string \<Rightarrow> (user \<Rightarrow> user) \<Rightarrow> store \<Rightarrow> user option \<times> store" where
  "User_findByIdAndUpdate i f st =
     (map_option f (find (\<lambda>u. uid u = i) (users st)),
      logged (FindByIdAndUpdateUser i) (st\<lparr>users := update_first (\<lambda>u. uid u = i) f (users st)\<rparr>))"

definition User_findByIdAndDelete :: "string \<Rightarrow> store \<Rightarrow> (error + user option) \<times> store" where
  \<comment> \<open>called with the path string, which is cast to an ObjectId first\<close>
  "User_findByIdAndDelete i st =
     (case castObjectId i of
        None \<Rightarrow> (Inl castError, logged (FindByIdAndDeleteUser i) st)
      | Some oid \<Rightarrow>
          (Inr (find (\<lambda>u. uid u = oid) (users st)),
           logged (FindByIdAndDeleteUser i)
             (st\<lparr>users := remove_first (\<lambda>u. uid u = oid) (users st)\<rparr>)))"

definition User_save :: "user \<Rightarrow> store \<Rightarrow> store" where
  \<comment> \<open>\<open>user.save()\<close> of a document read from the collection\<close>
  "User_save u st =
     logged (SaveUser (uid u)) (st\<lparr>users := update_first (\<lambda>v. uid v = uid u) (\<lambda>v. u) (users st)\<rparr>)"

definition Otp_findOne :: "string \<Rightarrow> string \<Rightarrow> store \<Rightarrow> otp_doc option \<times> store" where
  "Otp_findOne em code st =
     (find (\<lambda>r. otp_email r = otp_email_cast em \<and> otp r = code) (otps st),
      logged (FindOneOtp em code) st)"

definition Otp_create :: "env \<Rightarrow> string \<Rightarrow> string \<Rightarrow> store \<Rightarrow> store" where
  "Otp_create e em code st =
     (let r = \<lparr>otp_id = objectId_of_nat (next_id st), otp_email = otp_email_cast em, otp = code,
                otp_createdAt = now e\<rparr>
      in logged (CreateOtp em code) (st\<lparr>otps := otps st @ [r], next_id := Suc (next_id st)\<rparr>))"

definition Otp_deleteOne :: "string \<Rightarrow> store \<Rightarrow> store" where
  \<comment> \<open>\<open>Otp.deleteOne({_id: i})\<close>\<close>
  "Otp_deleteOne i st =
     logged (DeleteOneOtp i) (st\<lparr>otps := remove_first (\<lambda>r. otp_id r = i) (otps st)\<rparr>)"

text \<open>
  Modelled from the spec: \<open>comparePassword\<close> of the missing User model verifies the
  candidate against the stored hash.
\<close>

definition comparePassword :: "env \<Rightarrow> user \<Rightarrow> string \<Rightarrow> store \<Rightarrow> bool \<times> store" where
  "comparePassword e u candidate st =
     (bcrypt_compare e candidate (password u), logged (ComparePassword (uid u)) st)"

definition toObject :: "user \<Rightarrow> jobject" where
  "toObject u =
     [(''_id'', JStr (uid u)), (''email'', JStr (email u)), (''password'', JStr (password u))]
     @ opt_field ''name'' JStr (name u)
     @ opt_field ''relationshipType'' JStr (relationshipType u)
     @ opt_field ''dateOfBirth'' JStr (dateOfBirth u)
     @ opt_field ''numberOfChildren'' JNum (numberOfChildren u)
     @ [(''isEmailConfirmed'', JBool (isEmailConfirmed u)),
        (''isProfileComplete'', JBool (isProfileComplete u))]
     @ opt_field ''role'' JStr (role u)
     @ [(''createdAt'', JNum (int (createdAt u)))]"

section \<open>One-time codes, mail and tokens\<close>

definition generateOTP :: "env \<Rightarrow> string" where
  \<comment> \<open>\<open>Math.floor(1000 + Math.random() * 9000).toString()\<close>\<close>
  "generateOTP e = string_of_nat (1000 + random_draw e)"

definition sendOTPEmail :: "env \<Rightarrow> string \<Rightarrow> string \<Rightarrow> store \<Rightarrow> error option \<times> store" where
  \<comment> \<open>the error thrown, if any\<close>
  "sendOTPEmail e em code st =
     ((if sendMail_ok e em code then None else Some (JsError ''Error'' ''Failed to send OTP email'')),
      logged (SendOTPEmail em code) st)"

definition generateToken :: "env \<Rightarrow> string \<Rightarrow> string" where
  "generateToken e userId = jwt_sign e userId"

section \<open>The auth controller\<close>

definition register :: "env \<Rightarrow> request \<Rightarrow> store \<Rightarrow> outcome \<times> store" where
  "register e req st =
     (if falsy (body_email req) \<or> falsy (body_password req)
      then (Next_err (appError e req ''auth.emailRequired'' 400), st)
      else if length (str_of (body_password req)) < 8
      then (Next_err (appError e req ''auth.passwordMinLength'' 400), st)
      else
        let em = str_of (body_email req); pw = str_of (body_password req);
            (existingUser, st1) = User_findOne em st
        in case existingUser of
             Some x \<Rightarrow> (Next_err (appError e req ''auth.userExists'' 409), st1)
           | None \<Rightarrow>
               let (u, st2) = User_create e em pw False False st1;
                   code = generateOTP e;
                   st3 = Otp_create e em code st2;
                   (failure, st4) = sendOTPEmail e em code st3
               in case failure of
                    Some err \<Rightarrow> (Next_err err, st4)
                  | None \<Rightarrow>
                      let token = generateToken e (uid u);
                          userResponse = delete_key ''password'' (toObject u)
                      in (Respond \<lparr>res_code = 201,
                                   res_message = Some (translateRequest e ''auth.registerSuccess'' req),
                                   res_data = Token_user token userResponse\<rparr>, st4))"

definition confirmOTP :: "env \<Rightarrow> request \<Rightarrow> store \<Rightarrow> outcome \<times> store" where
  "confirmOTP e req st =
     (if falsy (body_email req) \<or> falsy (body_otp req)
      then (Next_err (appError e req ''auth.emailRequired'' 400), st)
      else
        let em = str_of (body_email req); code = str_of (body_otp req);
            (otpRecord, st1) = Otp_findOne em code st
        in case otpRecord of
             None \<Rightarrow> (Next_err (appError e req ''auth.invalidOTP'' 400), st1)
           | Some r \<Rightarrow>
               let (found, st2) = User_findOneAndUpdate em (\<lambda>u. u\<lparr>isEmailConfirmed := True\<rparr>) st1
               in case found of
                    None \<Rightarrow> (Next_err (appError e req ''auth.userNotFound'' 404), st2)
                  | Some u \<Rightarrow>
                      let st3 = Otp_deleteOne (otp_id r) st2;
                          token = generateToken e (uid u);
                          userResponse = delete_key ''password'' (toObject u)
                      in (Respond \<lparr>res_code = 200,
                                   res_message = Some (translateRequest e ''auth.emailConfirmed'' req),
                                   res_data = Token_user token userResponse\<rparr>, st3))"

definition login :: "env \<Rightarrow> request \<Rightarrow> store \<Rightarrow> outcome \<times> store" where
  "login e req st =
     (if falsy (body_email req) \<or> falsy (body_password req)
      then (Next_err (appError e req ''auth.emailRequired'' 400), st)
      else
        let em = str_of (body_email req); pw = str_of (body_password req);
            (found, st1) = User_findOne em st
        in case found of
             None \<Rightarrow> (Next_err (appError e req ''auth.invalidCredentials'' 401), st1)
           | Some u \<Rightarrow>
               let (isPasswordValid, st2) = comparePassword e u pw st1
               in if \<not> isPasswordValid
                  then (Next_err (appError e req ''auth.invalidCredentials'' 401), st2)
                  else
                    let token = generateToken e (uid u);
                        userResponse = delete_key ''password'' (toObject u)
                    in (Respond \<lparr>res_code = 200,
                                 res_message = Some (translateRequest e ''auth.loginSuccess'' req),
                                 res_data = Token_user token userResponse\<rparr>, st2))"

definition updateProfile :: "env \<Rightarrow> request \<Rightarrow> store \<Rightarrow> outcome \<times> store" where
  "updateProfile e req st =
     (if falsy (body_name req) \<or> falsy (body_dateOfBirth req)
      then (Next_err (appError e req ''auth.emailRequired'' 400), st)
      else case req_user req of
        None \<Rightarrow> (Next_err (appError e req ''auth.tokenRequired'' 401), st)
      | Some ru \<Rightarrow>
          let (found, st1) =
                User_findByIdAndUpdate (uid ru)
                  (\<lambda>u. u\<lparr>name := body_name req,
                          relationshipType :=
                            (case body_relationshipType req of
                               None \<Rightarrow> relationshipType u | Some t \<Rightarrow> Some t),
                          dateOfBirth := body_dateOfBirth req,
                          numberOfChildren :=
                            Some (case body_numberOfChildren req of None \<Rightarrow> 0 | Some n \<Rightarrow> n),
                          isProfileComplete := True\<rparr>) st
          in case found of
               None \<Rightarrow> (Next_err (appError e req ''auth.userNotFound'' 404), st1)
             | Some u \<Rightarrow>
                 let userResponse = delete_key ''password'' (toObject u)
                 in (Respond \<lparr>res_code = 200,
                              res_message = Some (translateRequest e ''auth.profileUpdated'' req),
                              res_data = User_only userResponse\<rparr>, st1))"

definition getMe :: "env \<Rightarrow> request \<Rightarrow> store \<Rightarrow> outcome \<times> store" where
  "getMe e req st =
     (case req_user req of
        None \<Rightarrow> (Next_err (appError e req ''auth.tokenRequired'' 401), st)
      | Some ru \<Rightarrow>
          let (found, st1) = User_findById (uid ru) st
          in case found of
               None \<Rightarrow> (Next_err (appError e req ''auth.userNotFound'' 404), st1)
             | Some u \<Rightarrow>
                 let userResponse = delete_key ''password'' (toObject u)
                 in (Respond \<lparr>res_code = 200, res_message = None,
                              res_data = User_only userResponse\<rparr>, st1))"

definition pick :: "string \<Rightarrow> string \<Rightarrow> jobject \<Rightarrow> jobject" where
  \<comment> \<open>\<open>{k: obj.field}\<close>; an \<open>undefined\<close> value is not serialised\<close>
  "pick k field obj = (case map_of obj field of None \<Rightarrow> [] | Some v \<Rightarrow> [(k, v)])"

definition adminLogin :: "env \<Rightarrow> request \<Rightarrow> store \<Rightarrow> outcome \<times> store" where
  "adminLogin e req st =
     (if falsy (body_email req) \<or> falsy (body_password req)
      then (Next_err (appError e req ''auth.emailRequired'' 400), st)
      else
        let em = str_of (body_email req); pw = str_of (body_password req);
            (found, st1) = User_findOne em st
        in case found of
             None \<Rightarrow> (Next_err (appError e req ''auth.invalidCredentials'' 401), st1)
           | Some u \<Rightarrow>
               if role u \<noteq> Some ''admin'' \<and> role u \<noteq> Some ''superAdmin''
               then (Next_err (appError e req ''auth.unauthorized'' 403), st1)
               else
                 let (isPasswordValid, st2) = comparePassword e u pw st1
                 in if \<not> isPasswordValid
                    then (Next_err (appError e req ''auth.invalidCredentials'' 401), st2)
                    else
                      let token = generateToken e (uid u);
                          userResponse = delete_key ''password'' (toObject u)
                      in (Respond \<lparr>res_code = 200,
                                   res_message = Some (translateRequest e ''auth.loginSuccess'' req),
                                   res_data = Token_admin token
                                     (pick ''id'' ''_id'' userResponse @ pick ''email'' ''email'' userResponse
                                      @ pick ''name'' ''name'' userResponse
                                      @ pick ''role'' ''role'' userResponse)\<rparr>, st2))"

section \<open>The access gate (auth.middleware.ts, admin.middleware.ts)\<close>

definition bearer_token :: "request \<Rightarrow> string option" where
  \<comment> \<open>the header's second space-separated piece, when the header starts with \<open>Bearer\<close>\<close>
  "bearer_token req =
     (if \<not> falsy (authorization req) \<and> startsWith (str_of (authorization req)) ''Bearer''
      then at_index (split (str_of (authorization req)) CHR '' '') 1
      else None)"

definition authenticate_try :: "env \<Rightarrow> request \<Rightarrow> store \<Rightarrow> (error + user) \<times> store" where
  \<comment> \<open>the \<open>try\<close> block: the error it throws, or the account it attaches\<close>
  "authenticate_try e req st =
     (if falsy (bearer_token req)
      then (Inl (appError e req ''auth.tokenRequired'' 401), st)
      else case jwt_verify e (str_of (bearer_token req)) of
             Throws n m \<Rightarrow> (Inl (JsError n m), st)
           | Decoded i \<Rightarrow>
               let (found, st1) = User_findById i st
               in case found of
                    None \<Rightarrow> (Inl (appError e req ''auth.userNotFound'' 404), st1)
                  | Some u \<Rightarrow> (Inr u, st1))"

definition authenticate :: "env \<Rightarrow> request \<Rightarrow> store \<Rightarrow> outcome \<times> store" where
  "authenticate e req st =
     (case authenticate_try e req st of
        (Inr u, st1) \<Rightarrow> (Next_ok (req\<lparr>req_user := Some u\<rparr>), st1)
      | (Inl err, st1) \<Rightarrow>
          if error_name err = ''JsonWebTokenError''
          then (Next_err (appError e req ''auth.tokenInvalid'' 401), st1)
          else if error_name err = ''TokenExpiredError''
          then (Next_err (appError e req ''auth.tokenExpired'' 401), st1)
          else (Next_err err, st1))"

definition requireAdmin :: "env \<Rightarrow> request \<Rightarrow> outcome" where
  "requireAdmin e req =
     (case req_user req of
        None \<Rightarrow> Next_err (appError e req ''auth.tokenRequired'' 401)
      | Some u \<Rightarrow>
          let userRole = (if falsy (role u) then ''user'' else str_of (role u))
          in if userRole \<noteq> ''admin'' \<and> userRole \<noteq> ''superAdmin''
             then Next_err (appError e req ''auth.unauthorized'' 403)
             else Next_ok req)"

section \<open>The users controller\<close>

text \<open>
  The filter \<open>getAllUsers\<close> builds. The role condition is either the request's
  \<open>role\<close> value itself or \<open>{$ne: "superAdmin"}\<close>. The database layer matches a string
  by equality and an array, on a path that holds one string, as \<open>$in\<close>.
\<close>

datatype role_cond = Role_is qvalue | Role_ne string

record user_query =
  q_search :: "string option"
  q_isEmailConfirmed :: "bool option"
  q_isProfileComplete :: "bool option"
  q_role :: role_cond

fun role_matches :: "role_cond \<Rightarrow> string option \<Rightarrow> bool" where
  "role_matches (Role_is (QStr s)) r = (r = Some s)"
| "role_matches (Role_is (QArr xs)) r = (case r of None \<Rightarrow> False | Some s \<Rightarrow> s \<in> set xs)"
| "role_matches (Role_ne s) r = (r \<noteq> Some s)"

definition matches :: "env \<Rightarrow> user_query \<Rightarrow> user \<Rightarrow> bool" where
  "matches e q u =
     ((case q_search q of
         None \<Rightarrow> True
       | Some s \<Rightarrow> regex_i e s (email u)
                  \<or> (case name u of None \<Rightarrow> False | Some n \<Rightarrow> regex_i e s n))
      \<and> (case q_isEmailConfirmed q of None \<Rightarrow> True | Some b \<Rightarrow> isEmailConfirmed u = b)
      \<and> (case q_isProfileComplete q of None \<Rightarrow> True | Some b \<Rightarrow> isProfileComplete u = b)
      \<and> role_matches (q_role q) (role u))"

definition select_minus_password :: "user \<Rightarrow> jobject" where
  \<comment> \<open>a document read with \<open>.select("-password")\<close>, as it is serialised\<close>
  "select_minus_password u = delete_key ''password'' (toObject u)"

definition User_find ::
  "env \<Rightarrow> user_query \<Rightarrow> int \<Rightarrow> int \<Rightarrow> store \<Rightarrow> (error + jobject list) \<times> store" where
  \<comment> \<open>\<open>find(q).select("-password").sort({createdAt: -1}).skip(skip).limit(limit)\<close>;
      the database refuses a negative skip and reads a negative limit as its size;
      accounts created at the same time keep the collection's order\<close>
  "User_find e q skip limit st =
     ((if skip < 0 then Inl (JsError ''MongoServerError'' ''skip must be non-negative'')
       else Inr (map select_minus_password
              (take (nat \<bar>limit\<bar>) (drop (nat skip)
                 (sort_key (\<lambda>u. - int (createdAt u)) (filter (matches e q) (users st))))))),
      logged FindUsers st)"

definition User_countDocuments :: "env \<Rightarrow> user_query \<Rightarrow> store \<Rightarrow> int \<times> store" where
  "User_countDocuments e q st =
     (int (length (filter (matches e q) (users st))), logged CountUsers st)"

definition truthy_q :: "qvalue option \<Rightarrow> bool" where
  \<comment> \<open>an array is truthy, a string unless it is empty\<close>
  "truthy_q v = (case v of None \<Rightarrow> False | Some (QStr s) \<Rightarrow> s \<noteq> [] | Some (QArr xs) \<Rightarrow> True)"

definition build_query :: "request \<Rightarrow> user_query" where
  "build_query req =
     \<lparr>q_search = (if falsy (query_search req) then None else query_search req),
      q_isEmailConfirmed =
        (case query_isEmailConfirmed req of None \<Rightarrow> None | Some v \<Rightarrow> Some (v = QStr ''true'')),
      q_isProfileComplete =
        (case query_isProfileComplete req of None \<Rightarrow> None | Some v \<Rightarrow> Some (v = QStr ''true'')),
      q_role =
        (if truthy_q (query_role req) \<and> query_role req \<noteq> Some (QStr ''superAdmin'')
         then (case query_role req of Some v \<Rightarrow> Role_is v | None \<Rightarrow> Role_ne ''superAdmin'')
         else Role_ne ''superAdmin'')\<rparr>"

definition getAllUsers :: "env \<Rightarrow> request \<Rightarrow> store \<Rightarrow> outcome \<times> store" where
  "getAllUsers e req st =
     (let page = (case query_page req of None \<Rightarrow> 1 | Some p \<Rightarrow> if p = 0 then 1 else p);
          limit = (case query_limit req of None \<Rightarrow> 10 | Some l \<Rightarrow> if l = 0 then 10 else l);
          skip = (page - 1) * limit;
          query = build_query req;
          (found, st1) = User_find e query skip limit st
      in case found of
           Inl err \<Rightarrow> (Next_err err, st1)
         | Inr page_users \<Rightarrow>
             let (total, st2) = User_countDocuments e query st1
             in (Respond \<lparr>res_code = 200, res_message = None,
                          res_data = Users_page page_users page limit total
                                       (- ((- total) div limit))\<rparr>, st2))"

definition getUserById :: "env \<Rightarrow> request \<Rightarrow> store \<Rightarrow> outcome \<times> store" where
  "getUserById e req st =
     (let (found, st1) = User_findById_path (params_id req) st
      in case found of
           Inl err \<Rightarrow> (Next_err err, st1)
         | Inr None \<Rightarrow> (Next_err (appError e req ''auth.userNotFound'' 404), st1)
         | Inr (Some u) \<Rightarrow>
             (Respond \<lparr>res_code = 200, res_message = None,
                       res_data = User_only (select_minus_password u)\<rparr>, st1))"

definition set_if :: "'a option \<Rightarrow> 'a \<Rightarrow> 'a" where
  \<comment> \<open>\<open>if (x !== undefined) field = x\<close>\<close>
  "set_if x old = (case x of None \<Rightarrow> old | Some v \<Rightarrow> v)"

definition updateUser :: "env \<Rightarrow> request \<Rightarrow> store \<Rightarrow> outcome \<times> store" where
  "updateUser e req st =
     (let (found, st1) = User_findById_path (params_id req) st
      in case found of
           Inl err \<Rightarrow> (Next_err err, st1)
         | Inr None \<Rightarrow> (Next_err (appError e req ''auth.userNotFound'' 404), st1)
         | Inr (Some u) \<Rightarrow>
             let u1 = u\<lparr>name := (case body_name req of None \<Rightarrow> name u | Some v \<Rightarrow> Some v),
                        relationshipType :=
                          (case body_relationshipType req of
                             None \<Rightarrow> relationshipType u | Some v \<Rightarrow> Some v),
                        dateOfBirth :=
                          (case body_dateOfBirth req of None \<Rightarrow> dateOfBirth u | Some v \<Rightarrow> Some v),
                        numberOfChildren :=
                          (case body_numberOfChildren req of
                             None \<Rightarrow> numberOfChildren u | Some v \<Rightarrow> Some v),
                        role := (case body_role req of None \<Rightarrow> role u | Some v \<Rightarrow> Some v),
                        isEmailConfirmed := set_if (body_isEmailConfirmed req) (isEmailConfirmed u),
                        isProfileComplete := set_if (body_isProfileComplete req) (isProfileComplete u)\<rparr>;
                 st2 = User_save u1 st1;
                 userResponse = delete_key ''password'' (toObject u1)
             in (Respond \<lparr>res_code = 200,
                          res_message = Some (translateRequest e ''auth.userUpdated'' req),
                          res_data = User_only userResponse\<rparr>, st2))"

definition deleteUser :: "env \<Rightarrow> request \<Rightarrow> store \<Rightarrow> outcome \<times> store" where
  "deleteUser e req st =
     (case req_user req of
        None \<Rightarrow> (Next_err (JsError ''TypeError'' ''Cannot read properties of undefined''), st)
      | Some ru \<Rightarrow>
          if uid ru = params_id req
          then (Next_err (appError e req ''auth.cannotDeleteSelf'' 400), st)
          else
            let (found, st1) = User_findByIdAndDelete (params_id req) st
            in case found of
                 Inl err \<Rightarrow> (Next_err err, st1)
               | Inr None \<Rightarrow> (Next_err (appError e req ''auth.userNotFound'' 404), st1)
               | Inr (Some u) \<Rightarrow>
                   (Respond \<lparr>res_code = 200,
                             res_message = Some (translateRequest e ''auth.userDeleted'' req),
                             res_data = No_data\<rparr>, st1))"

section \<open>What a caller observes\<close>

definition succeeded :: "outcome \<Rightarrow> bool" where
  "succeeded out = (case out of Respond r \<Rightarrow> True | Next_err err \<Rightarrow> False | Next_ok r \<Rightarrow> False)"

definition carried :: "outcome \<Rightarrow> jobject list" where
  \<comment> \<open>the account records in a response's payload\<close>
  "carried out =
     (case out of
        Respond r \<Rightarrow>
          (case res_data r of
             No_data \<Rightarrow> []
           | Token_user t obj \<Rightarrow> [obj]
           | User_only obj \<Rightarrow> [obj]
           | Token_admin t obj \<Rightarrow> [obj]
           | Users_page objs p l n m \<Rightarrow> objs)
      | Next_err err \<Rightarrow> []
      | Next_ok r \<Rightarrow> [])"

definition otp_stored :: "string \<Rightarrow> string \<Rightarrow> store \<Rightarrow> bool" where
  \<comment> \<open>a stored code matches the pair once the email is cast as the Otp schema casts it\<close>
  "otp_stored em code st =
     list_ex (\<lambda>r. otp_email r = otp_email_cast em \<and> otp r = code) (otps st)"

definition account_exists :: "string \<Rightarrow> store \<Rightarrow> bool" where
  "account_exists em st = list_ex (\<lambda>u. email u = em) (users st)"

section \<open>Sample environment, requests and stores\<close>

definition en_table :: "string \<Rightarrow> string option" where
  "en_table = map_of
     [(''auth.emailRequired'', ''Email and password are required''),
      (''auth.passwordMinLength'', ''Password must be at least 8 characters''),
      (''auth.userExists'', ''User already exists''),
      (''auth.userNotFound'', ''User not found''),
      (''auth.invalidCredentials'', ''Invalid email or password''),
      (''auth.invalidOTP'', ''Invalid or expired OTP''),
      (''auth.tokenRequired'', ''Authentication required. Please login.''),
      (''auth.tokenInvalid'', ''Invalid token''),
      (''auth.tokenExpired'', ''Token expired''),
      (''auth.unauthorized'', ''You are not authorized to access this resource''),
      (''auth.cannotDeleteSelf'', ''You cannot delete your own account''),
      (''auth.registerSuccess'', ''User registered successfully. OTP sent to email.''),
      (''auth.emailConfirmed'', ''Email confirmed successfully''),
      (''auth.loginSuccess'', ''Login successful''),
      (''auth.profileUpdated'', ''Profile updated successfully''),
      (''auth.userUpdated'', ''User updated successfully''),
      (''auth.userDeleted'', ''User deleted successfully'')]"

definition env0 :: env where
  "env0 =
     \<lparr>table = (\<lambda>l. if l = ''en'' then Some en_table else None),
      jwt_sign = (\<lambda>i. ''jwt.'' @ i),
      jwt_verify = (\<lambda>t. if startsWith t ''jwt.'' then Decoded (drop 4 t)
                        else if t = ''old'' then Throws ''TokenExpiredError'' ''jwt expired''
                        else Throws ''JsonWebTokenError'' ''jwt malformed''),
      bcrypt_hash = (\<lambda>p. ''#'' @ p),
      bcrypt_compare = (\<lambda>c h. h = ''#'' @ c),
      random_draw = 234,
      sendMail_ok = (\<lambda>em code. True),
      regex_i = (\<lambda>p s. toLowerCase p = toLowerCase s),
      now = 5\<rparr>"

definition env_mail_down :: env where
  "env_mail_down = env0\<lparr>sendMail_ok := (\<lambda>em code. False)\<rparr>"

definition req0 :: request where
  "req0 =
     \<lparr>authorization = None, accept_language = None, body_email = None, body_password = None,
      body_otp = None, body_name = None, body_relationshipType = None, body_dateOfBirth = None,
      body_numberOfChildren = None, body_role = None, body_isEmailConfirmed = None,
      body_isProfileComplete = None, params_id = [], query_page = None, query_limit = None,
      query_search = None, query_isEmailConfirmed = None, query_isProfileComplete = None,
      query_role = None, req_user = None\<rparr>"

definition account :: "string \<Rightarrow> string \<Rightarrow> string \<Rightarrow> user" where
  "account i em r =
     \<lparr>uid = i, email = em, password = ''#password1'', name = None, relationshipType = None,
      dateOfBirth = None, numberOfChildren = None, isEmailConfirmed = False,
      isProfileComplete = False, role = Some r, createdAt = 1\<rparr>"

definition alice :: user where
  "alice = account ''1'' ''a@x.com'' ''user''"

definition bob :: user where
  "bob = account ''2'' ''b@x.com'' ''admin''"

definition root :: user where
  "root = account ''3'' ''admin@wed.com'' ''superAdmin''"

definition store0 :: store where
  "store0 = \<lparr>users = [], otps = [], next_id = 0, calls = []\<rparr>"

definition code_for :: "string \<Rightarrow> string \<Rightarrow> string \<Rightarrow> otp_doc" where
  "code_for i em code = \<lparr>otp_id = i, otp_email = em, otp = code, otp_createdAt = 1\<rparr>"

definition credentials :: "string \<Rightarrow> string \<Rightarrow> request" where
  "credentials em pw = req0\<lparr>body_email := Some em, body_password := Some pw\<rparr>"

definition confirm_req :: request where
  "confirm_req = req0\<lparr>body_email := Some ''a@x.com'', body_otp := Some ''1234''\<rparr>"

definition bearer :: "string \<Rightarrow> request" where
  "bearer h = req0\<lparr>authorization := Some h\<rparr>"

definition people :: store where
  "people = store0\<lparr>users := [alice, bob, root]\<rparr>"

definition pending_store :: store where
  \<comment> \<open>alice with one pending code\<close>
  "pending_store = store0\<lparr>users := [alice], otps := [code_for ''7'' ''a@x.com'' ''1234'']\<rparr>"

definition orphan_store :: store where
  \<comment> \<open>a pending code whose account is gone\<close>
  "orphan_store = store0\<lparr>otps := [code_for ''7'' ''a@x.com'' ''1234'']\<rparr>"

definition twin_store :: store where
  \<comment> \<open>alice with the same code stored twice\<close>
  "twin_store = store0\<lparr>users := [alice],
     otps := [code_for ''7'' ''a@x.com'' ''1234'', code_for ''8'' ''a@x.com'' ''1234'']\<rparr>"

definition carol :: user where
  \<comment> \<open>an admin whose identifier has letters among its digits\<close>
  "carol = account ''64b7f0c2a1d3e4f5a6b7c8d9'' ''c@x.com'' ''admin''"

definition staff :: store where
  "staff = store0\<lparr>users := [carol]\<rparr>"

definition self_delete_req :: request where
  \<comment> \<open>carol asks to delete her own identifier, written in upper case\<close>
  "self_delete_req = req0\<lparr>params_id := ''64B7F0C2A1D3E4F5A6B7C8D9'', req_user := Some carol\<rparr>"

definition shouted_req :: request where
  "shouted_req = req0\<lparr>body_email := Some ''A@X.com'', body_otp := Some ''1234''\<rparr>"

section \<open>Facts about the collections\<close>







lemma delete_key_removes: "\<not> has_key k (delete_key k obj)"
  by (auto simp: has_key_def delete_key_def)

lemma has_key_append: "has_key k (xs @ ys) = (has_key k xs \<or> has_key k ys)"
  by (auto simp: has_key_def)

lemma has_key_pick: "has_key k (pick k' field obj) \<Longrightarrow> k = k'"
  by (auto simp: has_key_def pick_def split: option.splits)

lemma register_sanitized:
  "\<forall>obj \<in> set (carried (fst (register e req st))). \<not> has_key ''password'' obj"
  by (auto simp: register_def carried_def delete_key_removes Let_def
      split: option.splits prod.splits)

lemma confirmOTP_sanitized:
  "\<forall>obj \<in> set (carried (fst (confirmOTP e req st))). \<not> has_key ''password'' obj"
  by (auto simp: confirmOTP_def carried_def delete_key_removes Let_def
      split: option.splits prod.splits)

lemma login_sanitized:
  "\<forall>obj \<in> set (carried (fst (login e req st))). \<not> has_key ''password'' obj"
  by (auto simp: login_def carried_def delete_key_removes Let_def
      split: option.splits prod.splits)

lemma getMe_sanitized:
  "\<forall>obj \<in> set (carried (fst (getMe e req st))). \<not> has_key ''password'' obj"
  by (auto simp: getMe_def carried_def delete_key_removes Let_def
      split: option.splits prod.splits)

lemma updateProfile_sanitized:
  "\<forall>obj \<in> set (carried (fst (updateProfile e req st))). \<not> has_key ''password'' obj"
  by (auto simp: updateProfile_def carried_def delete_key_removes Let_def
      split: option.splits prod.splits)

lemma updateUser_sanitized:
  "\<forall>obj \<in> set (carried (fst (updateUser e req st))). \<not> has_key ''password'' obj"
  by (auto simp: updateUser_def carried_def delete_key_removes Let_def
      split: option.splits prod.splits sum.splits)

lemma adminLogin_sanitized:
  "\<forall>obj \<in> set (carried (fst (adminLogin e req st))). \<not> has_key ''password'' obj"
  by (auto simp: adminLogin_def carried_def has_key_append Let_def
      split: option.splits prod.splits dest: has_key_pick)

lemma getUserById_sanitized:
  "\<forall>obj \<in> set (carried (fst (getUserById e req st))). \<not> has_key ''password'' obj"
  by (auto simp: getUserById_def carried_def select_minus_password_def delete_key_removes Let_def
      split: option.splits prod.splits sum.splits)

lemma getAllUsers_sanitized:
  "\<forall>obj \<in> set (carried (fst (getAllUsers e req st))). \<not> has_key ''password'' obj"
  by (auto simp: getAllUsers_def User_find_def User_countDocuments_def carried_def
      select_minus_password_def delete_key_removes Let_def
      split: option.splits prod.splits sum.splits if_splits)

lemma role_in_response:
  "(''role'', JStr s) \<in> set (select_minus_password u) \<Longrightarrow> role u = Some s"
  by (auto simp: select_minus_password_def delete_key_def toObject_def opt_field_def
      split: option.splits)

lemma length_filter_mono:
  "(\<And>x. x \<in> set xs \<Longrightarrow> P x \<Longrightarrow> Q x) \<Longrightarrow> length (filter P xs) \<le> length (filter Q xs)"
  by (induction xs) auto

lemma string_role_query:
  assumes "query_role req = None \<or> (\<exists>s. query_role req = Some (QStr s))"
      and "matches e (build_query req) u"
  shows "role u \<noteq> Some ''superAdmin''"
  using assms
  by (auto simp: matches_def build_query_def truthy_q_def split: if_splits)

lemmas sample_defs =
  env0_def env_mail_down_def req0_def account_def alice_def bob_def root_def store0_def
  code_for_def credentials_def confirm_req_def bearer_def people_def pending_store_def
  orphan_store_def twin_store_def en_table_def carol_def staff_def self_delete_req_def
  shouted_req_def

lemmas helper_defs =
  falsy_def str_of_def appError_def translateRequest_def translate_def getLanguage_def
  logged_def succeeded_def otp_stored_def account_exists_def

lemma bearer_token_samples:
  "bearer_token (bearer ''Bearer jwt.1'') = Some ''jwt.1''"
  "bearer_token (bearer ''Bearer jwt.9'') = Some ''jwt.9''"
  "bearer_token (bearer ''Bearer old'') = Some ''old''"
  "bearer_token (bearer ''Bearer forged'') = Some ''forged''"
  "bearer_token (bearer ''Basic jwt.1'') = None"
  by (simp_all add: bearer_token_def bearer_def req0_def falsy_def str_of_def startsWith_def
      split_def at_index_def)

lemmas eval_defs = sample_defs helper_defs

section \<open>Registration\<close>

text \<open>
  C6. When the email or the password is missing (or empty), or the password is shorter
  than 8 characters, register fails with a 400 validation error and returns the store as
  it received it: no document changed and no call on a collaborator was logged.
\<close>

theorem register_invalid_input:
  assumes "falsy (body_email req) \<or> falsy (body_password req)
           \<or> length (str_of (body_password req)) < 8"
  shows "fst (register e req st) =
           Next_err (AppError
             (translateRequest e (if falsy (body_email req) \<or> falsy (body_password req)
                                  then ''auth.emailRequired'' else ''auth.passwordMinLength'') req)
             400 ''error''
             (if falsy (body_email req) \<or> falsy (body_password req)
              then ''auth.emailRequired'' else ''auth.passwordMinLength''))
         \<and> snd (register e req st) = st"
  using assms by (auto simp: register_def appError_def)

theorem register_invalid_input_witness:
  "length (str_of (body_password (credentials ''a@x.com'' ''short''))) < 8
   \<and> fst (register env0 (credentials ''a@x.com'' ''short'') store0) =
       Next_err (AppError ''Password must be at least 8 characters'' 400 ''error''
         ''auth.passwordMinLength'')
   \<and> snd (register env0 (credentials ''a@x.com'' ''short'') store0) = store0"
proof -
  have short: "length (str_of (body_password (credentials ''a@x.com'' ''short''))) < 8"
    by (simp add: eval_defs)
  then have "falsy (body_email (credentials ''a@x.com'' ''short''))
      \<or> falsy (body_password (credentials ''a@x.com'' ''short''))
      \<or> length (str_of (body_password (credentials ''a@x.com'' ''short''))) < 8"
    by simp
  from register_invalid_input [OF this, of env0 store0] short show ?thesis
    by (simp add: eval_defs)
qed




section \<open>Confirmation\<close>






section \<open>Login\<close>

text \<open>
  C4. For the same request, login answers a store that holds no account for the email
  and a store whose account rejects the password with the same outcome; when email and
  password are present that outcome is the 401 error with key auth.invalidCredentials.
\<close>

theorem login_failures_indistinguishable:
  assumes "body_email req = Some em" "body_password req = Some pw"
      and "find (\<lambda>u. email u = em) (users st1) = None"
      and "find (\<lambda>u. email u = em) (users st2) = Some u"
      and "\<not> bcrypt_compare e pw (password u)"
  shows "fst (login e req st2) = fst (login e req st1)
         \<and> (em \<noteq> [] \<and> pw \<noteq> [] \<longrightarrow>
              fst (login e req st1) =
                Next_err (AppError (translateRequest e ''auth.invalidCredentials'' req) 401 ''error''
                  ''auth.invalidCredentials''))"
  using assms
  by (simp add: login_def appError_def falsy_def str_of_def User_findOne_def logged_def
      comparePassword_def)

theorem login_failures_indistinguishable_witness:
  "fst (login env0 (credentials ''a@x.com'' ''guess'') store0) =
     Next_err (AppError ''Invalid email or password'' 401 ''error'' ''auth.invalidCredentials'')
   \<and> fst (login env0 (credentials ''a@x.com'' ''guess'') people) =
     Next_err (AppError ''Invalid email or password'' 401 ''error'' ''auth.invalidCredentials'')"
  using login_failures_indistinguishable
          [of "credentials ''a@x.com'' ''guess''" "''a@x.com''" "''guess''" store0 people alice env0]
  by (simp add: eval_defs)

text \<open>
  C5. For an account whose role is neither admin nor superAdmin, adminLogin with any
  non-empty password fails with the 403 error, and the only collaborator call it makes
  is the account lookup: the password is never compared.
\<close>

theorem adminLogin_role_before_password:
  assumes "body_email req = Some em" "em \<noteq> []" "body_password req = Some pw" "pw \<noteq> []"
      and "find (\<lambda>u. email u = em) (users st) = Some u"
      and "role u \<noteq> Some ''admin''" "role u \<noteq> Some ''superAdmin''"
  shows "adminLogin e req st =
           (Next_err (AppError (translateRequest e ''auth.unauthorized'' req) 403 ''error''
              ''auth.unauthorized''), st\<lparr>calls := calls st @ [FindOneUser em]\<rparr>)"
  using assms
  by (simp add: adminLogin_def appError_def falsy_def str_of_def User_findOne_def logged_def)

theorem adminLogin_role_before_password_witness:
  "bcrypt_compare env0 ''password1'' (password alice)
   \<and> adminLogin env0 (credentials ''a@x.com'' ''password1'') people =
       (Next_err (AppError ''You are not authorized to access this resource'' 403 ''error''
          ''auth.unauthorized''), people\<lparr>calls := [FindOneUser ''a@x.com'']\<rparr>)
   \<and> adminLogin env0 (credentials ''a@x.com'' ''guess'') people =
       (Next_err (AppError ''You are not authorized to access this resource'' 403 ''error''
          ''auth.unauthorized''), people\<lparr>calls := [FindOneUser ''a@x.com'']\<rparr>)"
  using adminLogin_role_before_password
          [of "credentials ''a@x.com'' ''password1''" "''a@x.com''" "''password1''" people alice env0]
        adminLogin_role_before_password
          [of "credentials ''a@x.com'' ''guess''" "''a@x.com''" "''guess''" people alice env0]
  by (simp add: eval_defs)

section \<open>The access gate\<close>

text \<open>
  C2. Without an authorization header, or with one that does not start with Bearer,
  authenticate fails with the 401 token-required error and leaves the store alone, as it
  does whenever the header yields no token. For a token the verifier rejects as
  JsonWebTokenError it fails with the 401 token-invalid error, for one rejected as
  TokenExpiredError with the 401 token-expired error; for a verified token whose
  identifier finds no account with the 404 not-found error; otherwise it passes the
  request on with the account attached.
\<close>

theorem authenticate_outcomes:
  "((authorization req = None \<or> \<not> startsWith (str_of (authorization req)) ''Bearer'') \<longrightarrow>
      authenticate e req st =
        (Next_err (AppError (translateRequest e ''auth.tokenRequired'' req) 401 ''error''
           ''auth.tokenRequired''), st))
   \<and> (falsy (bearer_token req) \<longrightarrow>
        authenticate e req st =
          (Next_err (AppError (translateRequest e ''auth.tokenRequired'' req) 401 ''error''
             ''auth.tokenRequired''), st))
   \<and> (bearer_token req = Some t \<and> t \<noteq> [] \<longrightarrow>
        (jwt_verify e t = Throws ''JsonWebTokenError'' m \<longrightarrow>
           fst (authenticate e req st) =
             Next_err (AppError (translateRequest e ''auth.tokenInvalid'' req) 401 ''error''
               ''auth.tokenInvalid''))
        \<and> (jwt_verify e t = Throws ''TokenExpiredError'' m \<longrightarrow>
           fst (authenticate e req st) =
             Next_err (AppError (translateRequest e ''auth.tokenExpired'' req) 401 ''error''
               ''auth.tokenExpired''))
        \<and> (jwt_verify e t = Decoded i \<and> find (\<lambda>u. uid u = i) (users st) = None \<longrightarrow>
           fst (authenticate e req st) =
             Next_err (AppError (translateRequest e ''auth.userNotFound'' req) 404 ''error''
               ''auth.userNotFound''))
        \<and> (jwt_verify e t = Decoded i \<and> find (\<lambda>u. uid u = i) (users st) = Some u \<longrightarrow>
           fst (authenticate e req st) = Next_ok (req\<lparr>req_user := Some u\<rparr>)))"
  by (auto simp: authenticate_def authenticate_try_def bearer_token_def falsy_def str_of_def
      appError_def User_findById_def logged_def)


theorem authenticate_outcomes_witness:
  "authenticate env0 req0 people =
     (Next_err (AppError ''Authentication required. Please login.'' 401 ''error''
        ''auth.tokenRequired''), people)
   \<and> authenticate env0 (bearer ''Basic jwt.1'') people =
     (Next_err (AppError ''Authentication required. Please login.'' 401 ''error''
        ''auth.tokenRequired''), people)
   \<and> fst (authenticate env0 (bearer ''Bearer forged'') people) =
     Next_err (AppError ''Invalid token'' 401 ''error'' ''auth.tokenInvalid'')
   \<and> fst (authenticate env0 (bearer ''Bearer old'') people) =
     Next_err (AppError ''Token expired'' 401 ''error'' ''auth.tokenExpired'')
   \<and> fst (authenticate env0 (bearer ''Bearer jwt.9'') people) =
     Next_err (AppError ''User not found'' 404 ''error'' ''auth.userNotFound'')
   \<and> fst (authenticate env0 (bearer ''Bearer jwt.1'') people) =
     Next_ok ((bearer ''Bearer jwt.1'')\<lparr>req_user := Some alice\<rparr>)"
proof -
  have none: "bearer_token req0 = None"
    by (simp add: bearer_token_def req0_def falsy_def)
  have v: "jwt_verify env0 ''forged'' = Throws ''JsonWebTokenError'' ''jwt malformed''"
    "jwt_verify env0 ''old'' = Throws ''TokenExpiredError'' ''jwt expired''"
    "jwt_verify env0 ''jwt.9'' = Decoded ''9''" "jwt_verify env0 ''jwt.1'' = Decoded ''1''"
    by (simp_all add: env0_def startsWith_def)
  have f: "find (\<lambda>u. uid u = ''9'') (users people) = None"
    "find (\<lambda>u. uid u = ''1'') (users people) = Some alice"
    by (simp_all add: eval_defs)
  have t: "translateRequest env0 k (bearer h) = translate env0 k ''en''"
    "translateRequest env0 k req0 = translate env0 k ''en''" for k h
    by (simp_all add: translateRequest_def getLanguage_def bearer_def req0_def falsy_def)
  have tr: "translate env0 ''auth.tokenRequired'' ''en'' = ''Authentication required. Please login.''"
    "translate env0 ''auth.tokenInvalid'' ''en'' = ''Invalid token''"
    "translate env0 ''auth.tokenExpired'' ''en'' = ''Token expired''"
    "translate env0 ''auth.userNotFound'' ''en'' = ''User not found''"
    by (simp_all add: translate_def env0_def en_table_def falsy_def str_of_def)
  show ?thesis
    using authenticate_outcomes [where req="req0" and t="[]" and e=env0 and m="[]" and i="[]" and st=people and u=alice]
      authenticate_outcomes [where req="bearer ''Basic jwt.1''" and t="[]" and e=env0 and m="[]" and i="[]" and st=people and u=alice]
      authenticate_outcomes [where req="bearer ''Bearer forged''" and t="''forged''" and e=env0 and m="''jwt malformed''" and i="[]" and st=people and u=alice]
      authenticate_outcomes [where req="bearer ''Bearer old''" and t="''old''" and e=env0 and m="''jwt expired''" and i="[]" and st=people and u=alice]
      authenticate_outcomes [where req="bearer ''Bearer jwt.9''" and t="''jwt.9''" and e=env0 and m="[]" and i="''9''" and st=people and u=alice]
      authenticate_outcomes [where req="bearer ''Bearer jwt.1''" and t="''jwt.1''" and e=env0 and m="[]" and i="''1''" and st=people and u=alice]
    by (simp add: bearer_token_samples none v f t tr falsy_def)
qed

text \<open>
  C3. requireAdmin fails with the 401 token-required error when no identity is attached,
  with the 403 error when the identity's role is user (or any role other than admin and
  superAdmin, or none), and passes the request on unchanged for the roles admin and
  superAdmin alike.
\<close>

theorem requireAdmin_gate:
  "(req_user req = None \<longrightarrow>
      requireAdmin e req =
        Next_err (AppError (translateRequest e ''auth.tokenRequired'' req) 401 ''error''
          ''auth.tokenRequired''))
   \<and> (req_user req = Some u \<and> role u = Some ''user'' \<longrightarrow>
      requireAdmin e req =
        Next_err (AppError (translateRequest e ''auth.unauthorized'' req) 403 ''error''
          ''auth.unauthorized''))
   \<and> (req_user req = Some u \<and> (role u = Some ''admin'' \<or> role u = Some ''superAdmin'') \<longrightarrow>
      requireAdmin e req = Next_ok req)
   \<and> (req_user req = Some u \<and> role u \<noteq> Some ''admin'' \<and> role u \<noteq> Some ''superAdmin'' \<longrightarrow>
      requireAdmin e req =
        Next_err (AppError (translateRequest e ''auth.unauthorized'' req) 403 ''error''
          ''auth.unauthorized''))"
  by (auto simp: requireAdmin_def appError_def falsy_def str_of_def Let_def split: option.splits)

theorem requireAdmin_gate_witness:
  "requireAdmin env0 req0 =
     Next_err (AppError ''Authentication required. Please login.'' 401 ''error''
       ''auth.tokenRequired'')
   \<and> requireAdmin env0 (req0\<lparr>req_user := Some alice\<rparr>) =
     Next_err (AppError ''You are not authorized to access this resource'' 403 ''error''
       ''auth.unauthorized'')
   \<and> requireAdmin env0 (req0\<lparr>req_user := Some bob\<rparr>) = Next_ok (req0\<lparr>req_user := Some bob\<rparr>)
   \<and> requireAdmin env0 (req0\<lparr>req_user := Some root\<rparr>) = Next_ok (req0\<lparr>req_user := Some root\<rparr>)"
  using requireAdmin_gate [of req0 env0 alice]
        requireAdmin_gate [of "req0\<lparr>req_user := Some alice\<rparr>" env0 alice]
        requireAdmin_gate [of "req0\<lparr>req_user := Some bob\<rparr>" env0 bob]
        requireAdmin_gate [of "req0\<lparr>req_user := Some root\<rparr>" env0 root]
  by (simp add: eval_defs)

section \<open>User administration\<close>

text \<open>
  C9. The guard of deleteUser compares the path string with the rendering of the
  caller's identifier, while the deletion casts the path string to an ObjectId. The
  caller's own identifier written in upper-case hexadecimal differs from the rendering
  and is cast to the same ObjectId: the guard lets the request through and the
  caller's account is deleted.
\<close>

theorem deleteUser_upper_case_id_deletes_caller:
  "castObjectId (params_id self_delete_req) = Some (uid carol)
   \<and> users staff = [carol]
   \<and> deleteUser env0 self_delete_req staff =
       (Respond \<lparr>res_code = 200, res_message = Some ''User deleted successfully'',
                   res_data = No_data\<rparr>,
        store0\<lparr>calls := [FindByIdAndDeleteUser ''64B7F0C2A1D3E4F5A6B7C8D9'']\<rparr>)"
  by code_simp

text \<open>
  When the path string equals the rendering of the caller's identifier, deleteUser fails
  with the 400 error with key auth.cannotDeleteSelf and returns the store as it received
  it: no deletion was attempted and the account is still stored.
\<close>

theorem deleteUser_self_guard:
  assumes "req_user req = Some admin" "params_id req = uid admin"
  shows "deleteUser e req st =
           (Next_err (AppError (translateRequest e ''auth.cannotDeleteSelf'' req) 400 ''error''
              ''auth.cannotDeleteSelf''), st)"
  using assms by (simp add: deleteUser_def appError_def)

theorem deleteUser_self_guard_witness:
  "deleteUser env0 (req0\<lparr>params_id := ''2'', req_user := Some bob\<rparr>) people =
     (Next_err (AppError ''You cannot delete your own account'' 400 ''error''
        ''auth.cannotDeleteSelf''), people)"
  using deleteUser_self_guard [of "req0\<lparr>params_id := ''2'', req_user := Some bob\<rparr>" bob env0 people]
  by (simp add: eval_defs)

text \<open>
  C10. The listing does not always leave superAdmin accounts out. When the \<open>role\<close>
  parameter is repeated the query value is an array; the guard compares it with the
  string superAdmin, finds it different and uses it as the role filter, which the
  database layer matches as \<open>$in\<close>. With \<open>role=superAdmin&role=superAdmin\<close> the page
  and the total are those of the superAdmin accounts.
\<close>

theorem getAllUsers_array_role_lists_superAdmin:
  "role root = Some ''superAdmin''
   \<and> fst (getAllUsers env0 (req0\<lparr>query_role := Some (QArr [''superAdmin'', ''superAdmin''])\<rparr>) people)
       = Respond \<lparr>res_code = 200, res_message = None,
                  res_data = Users_page [select_minus_password root] 1 10 1 1\<rparr>"
  by code_simp

text \<open>
  When the \<open>role\<close> parameter is absent or a single string, no account on the page of
  getAllUsers has the role superAdmin and the total counts no such account.
\<close>

theorem getAllUsers_string_role_excludes_superAdmin:
  assumes "query_role req = None \<or> (\<exists>s. query_role req = Some (QStr s))"
      and "fst (getAllUsers e req st) = Respond r"
      and "res_data r = Users_page objs p l n pages"
  shows "(\<forall>obj \<in> set objs. (''role'', JStr ''superAdmin'') \<notin> set obj)
         \<and> n \<le> int (length (filter (\<lambda>u. role u \<noteq> Some ''superAdmin'') (users st)))"
proof -
  let ?q = "build_query req"
  let ?hits = "filter (matches e ?q) (users st)"
  let ?limit = "case query_limit req of None \<Rightarrow> 10 | Some l \<Rightarrow> if l = 0 then 10 else l"
  let ?page = "case query_page req of None \<Rightarrow> 1 | Some p \<Rightarrow> if p = 0 then 1 else p"
  define lm where "lm = nat \<bar>?limit\<bar>"
  define sk where "sk = nat ((?page - 1) * ?limit)"
  from assms(2,3) have
    objs: "objs = map select_minus_password
             (take lm (drop sk (sort_key (\<lambda>u. - int (createdAt u)) ?hits)))"
    and total: "n = int (length ?hits)"
    by (auto simp: getAllUsers_def User_find_def User_countDocuments_def Let_def logged_def
        lm_def sk_def split: if_splits)
  have "role u \<noteq> Some ''superAdmin''"
    if "u \<in> set (take lm (drop sk (sort_key (\<lambda>u. - int (createdAt u)) ?hits)))" for u
  proof -
    from that have "u \<in> set (sort_key (\<lambda>u. - int (createdAt u)) ?hits)"
      by (auto dest!: in_set_takeD in_set_dropD)
    then have "matches e ?q u" by simp
    with assms(1) show ?thesis by (rule string_role_query)
  qed
  then have page: "\<forall>obj \<in> set objs. (''role'', JStr ''superAdmin'') \<notin> set obj"
    unfolding objs by (auto dest: role_in_response)
  have "length ?hits \<le> length (filter (\<lambda>u. role u \<noteq> Some ''superAdmin'') (users st))"
    by (rule length_filter_mono) (rule string_role_query [OF assms(1)])
  with total page show ?thesis by simp
qed

theorem getAllUsers_string_role_excludes_superAdmin_witness:
  "fst (getAllUsers env0 (req0\<lparr>query_role := Some (QStr ''superAdmin'')\<rparr>) people) =
     Respond \<lparr>res_code = 200, res_message = None,
       res_data = Users_page [select_minus_password alice, select_minus_password bob] 1 10 2 1\<rparr>
   \<and> (''role'', JStr ''superAdmin'') \<notin> set (select_minus_password alice)
   \<and> (''role'', JStr ''superAdmin'') \<notin> set (select_minus_password bob)
   \<and> (2::int) \<le> int (length (filter (\<lambda>u. role u \<noteq> Some ''superAdmin'') (users people)))"
proof -
  have out: "fst (getAllUsers env0 (req0\<lparr>query_role := Some (QStr ''superAdmin'')\<rparr>) people) =
     Respond \<lparr>res_code = 200, res_message = None,
       res_data = Users_page [select_minus_password alice, select_minus_password bob] 1 10 2 1\<rparr>"
    by code_simp
  have q: "query_role (req0\<lparr>query_role := Some (QStr ''superAdmin'')\<rparr>) = None
           \<or> (\<exists>s. query_role (req0\<lparr>query_role := Some (QStr ''superAdmin'')\<rparr>) = Some (QStr s))"
    by simp
  from getAllUsers_string_role_excludes_superAdmin [OF q out] out show ?thesis by simp
qed

section \<open>Sanitized responses\<close>

text \<open>
  C8. No account record carried by a response of register, confirmOTP, login, getMe,
  updateProfile or updateUser has a password field; the same holds for the summary
  adminLogin returns and for the documents of getUserById and getAllUsers.
\<close>

theorem responses_carry_no_password:
  "(\<forall>obj \<in> set (carried (fst (register e req st))). \<not> has_key ''password'' obj)
   \<and> (\<forall>obj \<in> set (carried (fst (confirmOTP e req st))). \<not> has_key ''password'' obj)
   \<and> (\<forall>obj \<in> set (carried (fst (login e req st))). \<not> has_key ''password'' obj)
   \<and> (\<forall>obj \<in> set (carried (fst (getMe e req st))). \<not> has_key ''password'' obj)
   \<and> (\<forall>obj \<in> set (carried (fst (updateProfile e req st))). \<not> has_key ''password'' obj)
   \<and> (\<forall>obj \<in> set (carried (fst (updateUser e req st))). \<not> has_key ''password'' obj)
   \<and> (\<forall>obj \<in> set (carried (fst (adminLogin e req st))). \<not> has_key ''password'' obj)
   \<and> (\<forall>obj \<in> set (carried (fst (getUserById e req st))). \<not> has_key ''password'' obj)
   \<and> (\<forall>obj \<in> set (carried (fst (getAllUsers e req st))). \<not> has_key ''password'' obj)"
  by (intro conjI register_sanitized confirmOTP_sanitized login_sanitized getMe_sanitized
      updateProfile_sanitized updateUser_sanitized adminLogin_sanitized getUserById_sanitized
      getAllUsers_sanitized)


theorem responses_carry_no_password_witness:
  "has_key ''password'' (toObject alice)
   \<and> carried (fst (login env0 (credentials ''a@x.com'' ''password1'') people)) =
       [[(''_id'', JStr ''1''), (''email'', JStr ''a@x.com''), (''isEmailConfirmed'', JBool False),
         (''isProfileComplete'', JBool False), (''role'', JStr ''user''), (''createdAt'', JNum 1)]]
   \<and> \<not> has_key ''password''
         [(''_id'', JStr ''1''), (''email'', JStr ''a@x.com''), (''isEmailConfirmed'', JBool False),
          (''isProfileComplete'', JBool False), (''role'', JStr ''user''), (''createdAt'', JNum 1)]"
proof -
  have c: "carried (fst (login env0 (credentials ''a@x.com'' ''password1'') people)) =
       [[(''_id'', JStr ''1''), (''email'', JStr ''a@x.com''), (''isEmailConfirmed'', JBool False),
         (''isProfileComplete'', JBool False), (''role'', JStr ''user''), (''createdAt'', JNum 1)]]"
    by code_simp
  have k: "has_key ''password'' (toObject alice)"
    by (simp add: has_key_def toObject_def)
  from responses_carry_no_password [of env0 "credentials ''a@x.com'' ''password1''" people] c k
  show ?thesis by simp
qed

end
